theory Spec2Isabelle
  imports Main
begin

section \<open>Python values used by \<^verbatim>\<open>rss_reader/summarizer.py\<close>\<close>

text \<open>
  A Python \<^verbatim>\<open>str\<close> is a sequence of Unicode code points and \<^verbatim>\<open>len\<close> counts code
  points, so a string is a list of code points here (not a list of bytes). The literals of
  the source that are not ASCII are written out as code points.
\<close>

type_synonym pystr = "nat list"

definition ascii :: "string \<Rightarrow> pystr" where
  "ascii cs = map of_char cs"

text \<open>
  An exception raised by a provider SDK or while reading its response: an instance of
  \<^verbatim>\<open>Exception\<close> (the text is \<^verbatim>\<open>str(e)\<close>), or an instance of a class outside
  \<^verbatim>\<open>Exception\<close> (\<^verbatim>\<open>KeyboardInterrupt\<close>, \<^verbatim>\<open>SystemExit\<close>), which
  \<^verbatim>\<open>except Exception\<close> does not catch.
\<close>

datatype exn = Exception pystr | BaseException pystr

text \<open>
  How a call of \<^verbatim>\<open>summarize\<close> or \<^verbatim>\<open>summarize_batch\<close> ends: it returns a value, it
  lets an exception of the provider path through, or \<^verbatim>\<open>str.format\<close> raised on the
  prompt template (a \<^verbatim>\<open>KeyError\<close>, \<^verbatim>\<open>IndexError\<close> or \<^verbatim>\<open>ValueError\<close>; the class
  and the message are not told apart).
\<close>

datatype 'a outcome = Return 'a | Raise exn | Raise_format_error

text \<open>\<^verbatim>\<open>str(i)\<close> for an integer: decimal digits, with a minus sign when negative.\<close>

fun digits :: "nat \<Rightarrow> pystr" where
  "digits n = (if n < 10 then [48 + n] else digits (n div 10) @ [48 + n mod 10])"

declare digits.simps [simp del]

definition str_int :: "int \<Rightarrow> pystr" where
  "str_int i = (if i < 0 then 45 # digits (nat (- i)) else digits (nat i))"

text \<open>
  The slice \<^verbatim>\<open>xs[:n]\<close>: a negative bound counts from the end of the list, and a bound
  before the start gives the empty list.
\<close>

definition slice_to :: "int \<Rightarrow> 'a list \<Rightarrow> 'a list" where
  "slice_to n xs = (if 0 \<le> n then take (nat n) xs else take (nat (int (length xs) + n)) xs)"

section \<open>\<^verbatim>\<open>str.format\<close> with the keyword arguments \<^verbatim>\<open>title\<close> and \<^verbatim>\<open>content\<close>\<close>

text \<open>
  \<^verbatim>\<open>template.format(title=t, content=c)\<close>, as CPython's formatter reads a template from
  left to right. \<^verbatim>\<open>{{\<close> and \<^verbatim>\<open>}}\<close> give one brace. A single \<^verbatim>\<open>}\<close>, a \<^verbatim>\<open>{\<close> at the
  end of the template, a second \<^verbatim>\<open>{\<close> inside a field name and a field that is never closed
  raise \<^verbatim>\<open>ValueError\<close>. A field \<^verbatim>\<open>{name}\<close> is looked up among the keyword arguments:
  \<^verbatim>\<open>title\<close> and \<^verbatim>\<open>content\<close> give the argument as it is, any other name raises
  \<^verbatim>\<open>KeyError\<close>, the empty name and a number raise \<^verbatim>\<open>IndexError\<close> (there is no
  positional argument). \<^verbatim>\<open>None\<close> is any of these exceptions.

  A field with a conversion (\<^verbatim>\<open>!r\<close>), a format specification (\<^verbatim>\<open>:>10\<close>), an attribute
  (\<^verbatim>\<open>.name\<close>) or an index (\<^verbatim>\<open>[0]\<close>) is not modelled: from the \<^verbatim>\<open>{\<close> of the
  first such field on, the rendering of the rest of the template is the parameter \<open>ext\<close>
  (the rest of the template, the title, the content), \<^verbatim>\<open>None\<close> when it raises.
\<close>

definition in_name :: "nat \<Rightarrow> bool" where
  "in_name x \<longleftrightarrow> x \<notin> {123, 125, 58, 33, 46, 91}"

definition lookup_field :: "pystr \<Rightarrow> pystr \<Rightarrow> pystr \<Rightarrow> pystr option" where
  "lookup_field name t c =
     (if name = ascii ''title'' then Some t
      else if name = ascii ''content'' then Some c
      else None)"

function str_format ::
  "(pystr \<Rightarrow> pystr \<Rightarrow> pystr \<Rightarrow> pystr option) \<Rightarrow> pystr \<Rightarrow> pystr \<Rightarrow> pystr \<Rightarrow> pystr option"
where
  "str_format ext [] t c = Some []"
| "str_format ext (x # rest) t c =
     (if x = 125 then
        (case rest of
           [] \<Rightarrow> None
         | y # rest' \<Rightarrow>
             if y = 125 then map_option ((#) 125) (str_format ext rest' t c) else None)
      else if x = 123 then
        (case rest of
           [] \<Rightarrow> None
         | y # rest' \<Rightarrow>
             if y = 123 then map_option ((#) 123) (str_format ext rest' t c)
             else
               (case dropWhile in_name rest of
                  [] \<Rightarrow> None
                | d # after \<Rightarrow>
                    if d = 125 then
                      (case lookup_field (takeWhile in_name rest) t c of
                         None \<Rightarrow> None
                       | Some v \<Rightarrow> map_option ((@) v) (str_format ext after t c))
                    else if d = 123 then None
                    else ext (x # rest) t c))
      else map_option ((#) x) (str_format ext rest t c))"
  by pat_completeness auto

termination
proof (relation "measure (\<lambda>(ext, template, t, c). length template)")
  fix ext :: "pystr \<Rightarrow> pystr \<Rightarrow> pystr \<Rightarrow> pystr option"
  fix x y d :: nat and rest rest' after t c :: pystr
  assume "rest = y # rest'" and "dropWhile in_name rest = d # after"
  then have "Suc (length after) \<le> length rest"
    using length_dropWhile_le [of in_name rest] by simp
  then show "((ext, after, t, c), (ext, x # rest, t, c))
      \<in> measure (\<lambda>(ext, template, t, c). length template)"
    by simp
qed auto

section \<open>Articles, configuration and the Summarizer instance\<close>

text \<open>
  Modelled from the spec: the class \<^verbatim>\<open>Article\<close> of \<^verbatim>\<open>rss_reader/fetcher.py\<close> is not
  among the sources. The spec gives it a \<^verbatim>\<open>title\<close> (text) and a \<^verbatim>\<open>content\<close> (text,
  possibly empty), the two attributes that \<^verbatim>\<open>summarizer.py\<close> reads. Its other attributes
  are the extension of the record, so every statement below holds for an article with
  any further fields.
\<close>

record article =
  title :: pystr
  content :: pystr

text \<open>
  A provider client is an object of the class whose constructor made it; the number
  tells the objects of one class apart.
\<close>

datatype client = Anthropic nat | OpenAI nat

text \<open>The attributes of a \<^verbatim>\<open>Summarizer\<close>; \<open>client\<close> is \<^verbatim>\<open>self._client\<close>.\<close>

record summarizer =
  provider :: pystr
  model :: pystr
  api_key :: "pystr option"
  openai_api_key :: "pystr option"
  openai_api_base :: pystr
  openai_model :: pystr
  prompt_template :: pystr
  client :: "client option"

text \<open>
  \<^verbatim>\<open>_default_prompt\<close>: the built-in template, three runs of Chinese text around the
  fields \<^verbatim>\<open>{title}\<close> and \<^verbatim>\<open>{content}\<close>.
\<close>

definition prompt_head :: pystr where
  "prompt_head = [35831, 29992, 20013, 25991, 20026, 20197, 19979, 25991, 31456, 29983,
     25104, 31616, 27905, 25688, 35201, 65288, 51, 45, 53, 21477, 35805, 65289, 65306, 10,
     26631, 39064, 65306]"

definition prompt_middle :: pystr where
  "prompt_middle = [10, 20869, 23481, 65306]"

definition prompt_tail :: pystr where
  "prompt_tail = [10, 10, 35201, 27714, 65306, 31361, 20986, 26680, 24515, 35266, 28857,
     65292, 24110, 21161, 35835, 32773, 24555, 36895, 21028, 26029, 26159, 21542, 20540,
     24471, 38405, 35835, 21407, 25991, 12290]"

definition default_prompt :: pystr where
  "default_prompt =
     prompt_head @ ascii ''{title}'' @ prompt_middle @ ascii ''{content}'' @ prompt_tail"

text \<open>\<^verbatim>\<open>config.get(key, default)\<close> on a dictionary from text to text.\<close>

definition get_default :: "(pystr \<rightharpoonup> pystr) \<Rightarrow> string \<Rightarrow> pystr \<Rightarrow> pystr" where
  "get_default config key d = (case config (ascii key) of None \<Rightarrow> d | Some v \<Rightarrow> v)"

text \<open>\<^verbatim>\<open>Summarizer.__init__\<close>: every option with its default, and no client yet.\<close>

definition Summarizer :: "(pystr \<rightharpoonup> pystr) \<Rightarrow> summarizer" where
  "Summarizer config =
     \<lparr>provider = get_default config ''provider'' (ascii ''claude''),
      model = get_default config ''model'' (ascii ''claude-sonnet-4-20250514''),
      api_key = config (ascii ''api_key''),
      openai_api_key = config (ascii ''openai_api_key''),
      openai_api_base = get_default config ''openai_api_base'' (ascii ''https://api.openai.com/v1''),
      openai_model = get_default config ''openai_model'' (ascii ''gpt-4o-mini''),
      prompt_template = get_default config ''summary_prompt'' default_prompt,
      client = None\<rparr>"

section \<open>The outside world: the provider SDKs and the standard output\<close>

text \<open>
  A content block of a Claude message: a text block, or a block of another class (the
  name of the class is given), which has no attribute \<^verbatim>\<open>text\<close>.
\<close>

datatype block = Text_block pystr | Other_block pystr

text \<open>
  What the module does to the outside, in the order it does it: a line printed, a client
  constructed (with the client, or \<^verbatim>\<open>None\<close> when the constructor raised), a request
  sent through a client (model, \<^verbatim>\<open>max_tokens\<close>, the prompt of the one user message).
\<close>

datatype event =
    Print pystr
  | New_Anthropic "pystr option" "client option"
  | New_OpenAI "pystr option" pystr "client option"
  | Messages_create client pystr nat pystr
  | Chat_completions_create client pystr nat pystr

text \<open>
  The SDKs are not part of the module: their answers are parameters. Each takes the
  state of the world \<open>'w\<close> and returns the next one, so the same request can be answered
  differently the second time. \<open>format_ext\<close> is the part of \<^verbatim>\<open>str.format\<close> that
  \<open>str_format\<close> leaves open. The import of the SDK is part of the constructor call.
  A Claude message is its list of content blocks, an OpenAI response the list of the
  \<^verbatim>\<open>message.content\<close> of its choices (each a text or \<^verbatim>\<open>None\<close>).
\<close>

record 'w env =
  format_ext :: "pystr \<Rightarrow> pystr \<Rightarrow> pystr \<Rightarrow> pystr option"
  anthropic_Anthropic :: "pystr option \<Rightarrow> 'w \<Rightarrow> (exn + nat) \<times> 'w"
  openai_OpenAI :: "pystr option \<Rightarrow> pystr \<Rightarrow> 'w \<Rightarrow> (exn + nat) \<times> 'w"
  messages_create :: "client \<Rightarrow> pystr \<Rightarrow> nat \<Rightarrow> pystr \<Rightarrow> 'w \<Rightarrow> (exn + block list) \<times> 'w"
  chat_completions_create ::
    "client \<Rightarrow> pystr \<Rightarrow> nat \<Rightarrow> pystr \<Rightarrow> 'w \<Rightarrow> (exn + pystr option list) \<times> 'w"

section \<open>The methods of \<^verbatim>\<open>Summarizer\<close>\<close>

text \<open>
  Every method takes the instance and the world and returns its result (\<open>Inl\<close> an
  exception raised), the instance and the world afterwards, and the events it caused.
\<close>

definition get_claude_client ::
  "'w env \<Rightarrow> summarizer \<Rightarrow> 'w \<Rightarrow> (exn + client) \<times> summarizer \<times> 'w \<times> event list"
where
  "get_claude_client env s w =
     (case client s of
        None \<Rightarrow>
          (case anthropic_Anthropic env (api_key s) w of
             (Inl e, w') \<Rightarrow> (Inl e, s, w', [New_Anthropic (api_key s) None])
           | (Inr h, w') \<Rightarrow>
               (Inr (Anthropic h), s\<lparr>client := Some (Anthropic h)\<rparr>, w',
                [New_Anthropic (api_key s) (Some (Anthropic h))]))
      | Some c \<Rightarrow> (Inr c, s, w, []))"

definition get_openai_client ::
  "'w env \<Rightarrow> summarizer \<Rightarrow> 'w \<Rightarrow> (exn + client) \<times> summarizer \<times> 'w \<times> event list"
where
  "get_openai_client env s w =
     (case client s of
        None \<Rightarrow>
          (case openai_OpenAI env (openai_api_key s) (openai_api_base s) w of
             (Inl e, w') \<Rightarrow>
               (Inl e, s, w', [New_OpenAI (openai_api_key s) (openai_api_base s) None])
           | (Inr h, w') \<Rightarrow>
               (Inr (OpenAI h), s\<lparr>client := Some (OpenAI h)\<rparr>, w',
                [New_OpenAI (openai_api_key s) (openai_api_base s) (Some (OpenAI h))]))
      | Some c \<Rightarrow> (Inr c, s, w, []))"

text \<open>\<^verbatim>\<open>message.content[0].text\<close>\<close>

definition first_text :: "block list \<Rightarrow> exn + pystr" where
  "first_text blocks =
     (case blocks of
        [] \<Rightarrow> Inl (Exception (ascii ''list index out of range''))
      | Text_block txt # _ \<Rightarrow> Inr txt
      | Other_block cls # _ \<Rightarrow>
          Inl (Exception ([39] @ cls @ [39] @ ascii '' object has no attribute '' @ [39]
                 @ ascii ''text'' @ [39])))"

text \<open>\<^verbatim>\<open>response.choices[0].message.content\<close>\<close>

definition first_choice :: "pystr option list \<Rightarrow> exn + pystr option" where
  "first_choice choices =
     (case choices of
        [] \<Rightarrow> Inl (Exception (ascii ''list index out of range''))
      | c # _ \<Rightarrow> Inr c)"

definition summarize_with_claude ::
  "'w env \<Rightarrow> summarizer \<Rightarrow> 'w \<Rightarrow> pystr \<Rightarrow> (exn + pystr) \<times> summarizer \<times> 'w \<times> event list"
where
  "summarize_with_claude env s w prompt =
     (case get_claude_client env s w of
        (Inl e, s1, w1, tr) \<Rightarrow> (Inl e, s1, w1, tr)
      | (Inr c, s1, w1, tr) \<Rightarrow>
          (case messages_create env c (model s1) 500 prompt w1 of
             (Inl e, w2) \<Rightarrow> (Inl e, s1, w2, tr @ [Messages_create c (model s1) 500 prompt])
           | (Inr message, w2) \<Rightarrow>
               (first_text message, s1, w2, tr @ [Messages_create c (model s1) 500 prompt])))"

definition summarize_with_openai ::
  "'w env \<Rightarrow> summarizer \<Rightarrow> 'w \<Rightarrow> pystr \<Rightarrow>
     (exn + pystr option) \<times> summarizer \<times> 'w \<times> event list"
where
  "summarize_with_openai env s w prompt =
     (case get_openai_client env s w of
        (Inl e, s1, w1, tr) \<Rightarrow> (Inl e, s1, w1, tr)
      | (Inr c, s1, w1, tr) \<Rightarrow>
          (case chat_completions_create env c (openai_model s1) 500 prompt w1 of
             (Inl e, w2) \<Rightarrow>
               (Inl e, s1, w2, tr @ [Chat_completions_create c (openai_model s1) 500 prompt])
           | (Inr response, w2) \<Rightarrow>
               (first_choice response, s1, w2,
                tr @ [Chat_completions_create c (openai_model s1) 500 prompt])))"

text \<open>The texts of the source: the placeholder summary, the warning and the error line.\<close>

definition no_summary :: pystr where
  "no_summary = [26242, 26080, 20869, 23481, 25688, 35201]"

definition warning_line :: "pystr \<Rightarrow> pystr" where
  "warning_line p =
     [91, 35686, 21578, 93, 32, 26410, 30693, 30340, 32] @ ascii ''LLM provider: '' @ p"

definition error_line :: "pystr \<Rightarrow> pystr \<Rightarrow> pystr" where
  "error_line ttl detail =
     [91, 38169, 35823, 93, 32] @ ascii ''LLM '' @ [25688, 35201, 22833, 36133, 32, 40]
       @ ttl @ ascii ''): '' @ detail"

text \<open>The body of the \<^verbatim>\<open>try\<close> statement of \<^verbatim>\<open>summarize\<close> (lines 91 to 97).\<close>

definition dispatch ::
  "'w env \<Rightarrow> summarizer \<Rightarrow> 'w \<Rightarrow> pystr \<Rightarrow>
     (exn + pystr option) \<times> summarizer \<times> 'w \<times> event list"
where
  "dispatch env s w prompt =
     (if provider s = ascii ''claude'' then
        (case summarize_with_claude env s w prompt of
           (r, s', w', tr) \<Rightarrow> (map_sum id Some r, s', w', tr))
      else if provider s = ascii ''openai'' then summarize_with_openai env s w prompt
      else (Inr None, s, w, [Print (warning_line (provider s))]))"

text \<open>
  \<^verbatim>\<open>summarize\<close>. The template is rendered before the \<^verbatim>\<open>try\<close> statement, so an
  exception of \<^verbatim>\<open>str.format\<close> leaves the method; \<^verbatim>\<open>except Exception\<close> turns an
  instance of \<^verbatim>\<open>Exception\<close> raised by the body into a printed line and \<^verbatim>\<open>None\<close>.
\<close>

definition summarize ::
  "'w env \<Rightarrow> summarizer \<Rightarrow> 'w \<Rightarrow> 'm article_scheme \<Rightarrow>
     pystr option outcome \<times> summarizer \<times> 'w \<times> event list"
where
  "summarize env s w a =
     (if length (content a) < 100 then
        (Return (Some (if content a \<noteq> [] then content a else no_summary)), s, w, [])
      else
        (case str_format (format_ext env) (prompt_template s) (title a) (content a) of
           None \<Rightarrow> (Raise_format_error, s, w, [])
         | Some prompt \<Rightarrow>
             (case dispatch env s w prompt of
                (Inr r, s', w', tr) \<Rightarrow> (Return r, s', w', tr)
              | (Inl (Exception detail), s', w', tr) \<Rightarrow>
                  (Return None, s', w', tr @ [Print (error_line (title a) detail)])
              | (Inl (BaseException detail), s', w', tr) \<Rightarrow>
                  (Raise (BaseException detail), s', w', tr))))"

text \<open>
  The progress line of \<^verbatim>\<open>summarize_batch\<close>, with \<^verbatim>\<open>i + 1\<close>, the total
  \<^verbatim>\<open>min(len(articles), max_articles)\<close> and the first 50 characters of the title.
\<close>

definition progress_line :: "nat \<Rightarrow> int \<Rightarrow> pystr \<Rightarrow> pystr" where
  "progress_line i shown ttl =
     [91, 25688, 35201, 93, 32, 40] @ str_int (int i + 1) @ [47] @ str_int shown
       @ ascii '') '' @ take 50 ttl @ ascii ''...''"

text \<open>
  The loop of \<^verbatim>\<open>summarize_batch\<close> over the slice, with the index \<open>i\<close> of
  \<^verbatim>\<open>enumerate\<close>, the total \<open>shown\<close> in the progress line and the list \<open>results\<close>
  built so far. The line is printed before the article is summarized. The loop has no
  handler, so an exception that leaves \<^verbatim>\<open>summarize\<close> leaves the loop.
\<close>

fun batch_loop ::
  "'w env \<Rightarrow> int \<Rightarrow> summarizer \<Rightarrow> 'w \<Rightarrow> nat \<Rightarrow> 'm article_scheme list \<Rightarrow>
     ('m article_scheme \<times> pystr option) list \<Rightarrow>
     ('m article_scheme \<times> pystr option) list outcome \<times> summarizer \<times> 'w \<times> event list"
where
  "batch_loop env shown s w i [] results = (Return results, s, w, [])"
| "batch_loop env shown s w i (a # rest) results =
     (case summarize env s w a of
        (Return summary, s', w', tr) \<Rightarrow>
          (case batch_loop env shown s' w' (Suc i) rest (results @ [(a, summary)]) of
             (r, s'', w'', tr') \<Rightarrow>
               (r, s'', w'', Print (progress_line i shown (title a)) # tr @ tr'))
      | (Raise e, s', w', tr) \<Rightarrow>
          (Raise e, s', w', Print (progress_line i shown (title a)) # tr)
      | (Raise_format_error, s', w', tr) \<Rightarrow>
          (Raise_format_error, s', w', Print (progress_line i shown (title a)) # tr))"

text \<open>
  \<^verbatim>\<open>summarize_batch\<close>. The bound \<^verbatim>\<open>max_articles\<close> is any integer (10 when the
  caller gives none).
\<close>

definition summarize_batch ::
  "'w env \<Rightarrow> summarizer \<Rightarrow> 'w \<Rightarrow> 'm article_scheme list \<Rightarrow> int \<Rightarrow>
     ('m article_scheme \<times> pystr option) list outcome \<times> summarizer \<times> 'w \<times> event list"
where
  "summarize_batch env s w articles max_articles =
     batch_loop env (min (int (length articles)) max_articles) s w 0
       (slice_to max_articles articles) []"

section \<open>Notions of the specification\<close>

text \<open>
  A template in the words of the spec: literal text and the two placeholders
  \<^verbatim>\<open>{title}\<close> and \<^verbatim>\<open>{content}\<close>. \<open>template_of\<close> writes it as the text that
  \<^verbatim>\<open>str.format\<close> reads (a brace of the literal text is doubled), and \<open>render\<close> puts the
  title and the content in place of the placeholders, verbatim.
\<close>

datatype segment = Literal pystr | Title_field | Content_field

fun escape :: "pystr \<Rightarrow> pystr" where
  "escape [] = []"
| "escape (x # xs) = (if x = 123 \<or> x = 125 then x # x # escape xs else x # escape xs)"

fun template_of :: "segment list \<Rightarrow> pystr" where
  "template_of [] = []"
| "template_of (Literal l # segs) = escape l @ template_of segs"
| "template_of (Title_field # segs) = ascii ''{title}'' @ template_of segs"
| "template_of (Content_field # segs) = ascii ''{content}'' @ template_of segs"

fun render :: "segment list \<Rightarrow> pystr \<Rightarrow> pystr \<Rightarrow> pystr" where
  "render [] t c = []"
| "render (Literal l # segs) t c = l @ render segs t c"
| "render (Title_field # segs) t c = t @ render segs t c"
| "render (Content_field # segs) t c = c @ render segs t c"

text \<open>
  Read off a trace: the clients that were constructed, the clients that requests went
  through, and the prompts that were sent.
\<close>

fun created_by :: "event \<Rightarrow> client option" where
  "created_by (New_Anthropic key r) = r"
| "created_by (New_OpenAI key base r) = r"
| "created_by _ = None"

fun used_by :: "event \<Rightarrow> client option" where
  "used_by (Messages_create c m n p) = Some c"
| "used_by (Chat_completions_create c m n p) = Some c"
| "used_by _ = None"

fun prompt_in :: "event \<Rightarrow> pystr option" where
  "prompt_in (Messages_create c m n p) = Some p"
| "prompt_in (Chat_completions_create c m n p) = Some p"
| "prompt_in _ = None"

definition created :: "event list \<Rightarrow> client list" where
  "created tr = List.map_filter created_by tr"

definition used :: "event list \<Rightarrow> client list" where
  "used tr = List.map_filter used_by tr"

definition dispatched :: "event list \<Rightarrow> pystr list" where
  "dispatched tr = List.map_filter prompt_in tr"

text \<open>A client matches a provider name when it is of that provider's class.\<close>

fun matches :: "pystr \<Rightarrow> client \<Rightarrow> bool" where
  "matches p (Anthropic h) = (p = ascii ''claude'')"
| "matches p (OpenAI h) = (p = ascii ''openai'')"

text \<open>
  The discipline of the cached client over a run from the instance \<open>s\<close> to the instance
  \<open>s'\<close> with the trace \<open>tr\<close>: only the field \<open>client\<close> differs; a client that was
  there stays and nothing is constructed; with no client at the start, the constructed
  clients are exactly the one cached at the end, if any; a constructed client matches
  the provider; and every request went through the client cached at the end.
\<close>

definition one_client :: "summarizer \<Rightarrow> summarizer \<Rightarrow> event list \<Rightarrow> bool" where
  "one_client s s' tr \<longleftrightarrow>
     s' = s\<lparr>client := client s'\<rparr>
     \<and> created tr =
         (if client s = None then (case client s' of None \<Rightarrow> [] | Some c \<Rightarrow> [c]) else [])
     \<and> (if client s = None then True else client s' = client s)
     \<and> list_all (matches (provider s)) (created tr)
     \<and> list_all (\<lambda>c. client s' = Some c) (used tr)"

section \<open>Two worlds for the examples\<close>

text \<open>
  In both, the world is a counter that numbers the clients. In \<open>echo_env\<close> a request is
  answered with its own prompt; in \<open>down_env\<close> every request raises a time-out.
\<close>

definition echo_env :: "nat env" where
  "echo_env =
     \<lparr>format_ext = (\<lambda>rest t c. None),
      anthropic_Anthropic = (\<lambda>key w. (Inr w, Suc w)),
      openai_OpenAI = (\<lambda>key base w. (Inr w, Suc w)),
      messages_create = (\<lambda>c m n p w. (Inr [Text_block p], w)),
      chat_completions_create = (\<lambda>c m n p w. (Inr [Some p], w))\<rparr>"


text \<open>The three articles of the examples of the spec.\<close>

definition article_A :: article where
  "article_A = \<lparr>title = ascii ''A'', content = []\<rparr>"

definition article_B :: article where
  "article_B = \<lparr>title = ascii ''B'', content = replicate 50 120\<rparr>"

definition article_C :: article where
  "article_C = \<lparr>title = ascii ''C'', content = replicate 200 120\<rparr>"

text \<open>A configuration whose template names a field that \<^verbatim>\<open>summarize\<close> does not pass.\<close>

definition author_config :: "pystr \<rightharpoonup> pystr" where
  "author_config = [ascii ''summary_prompt'' \<mapsto> ascii ''{author}'']"

definition mystery_config :: "pystr \<rightharpoonup> pystr" where
  "mystery_config =
     [ascii ''provider'' \<mapsto> ascii ''mystery'', ascii ''summary_prompt'' \<mapsto> ascii ''{author}'']"

text \<open>The prompt that the built-in template gives for \<open>article_C\<close>.\<close>

definition prompt_C :: pystr where
  "prompt_C = prompt_head @ ascii ''C'' @ prompt_middle @ replicate 200 120 @ prompt_tail"

text \<open>Two configurations whose templates differ and render alike for \<open>article_C\<close>.\<close>

definition title_config :: "pystr \<rightharpoonup> pystr" where
  "title_config = [ascii ''summary_prompt'' \<mapsto> ascii ''{title}{content}'']"

definition literal_config :: "pystr \<rightharpoonup> pystr" where
  "literal_config = [ascii ''summary_prompt'' \<mapsto> ascii ''C{content}'']"

section \<open>Rendering the prompt template\<close>

text \<open>
  On a template in the words of the spec \<open>str_format\<close> never raises, and its result is
  the rendering with the title and the content put in verbatim.
\<close>

lemma str_format_escape:
  "str_format ext (escape l @ rest) t c = map_option (\<lambda>r. l @ r) (str_format ext rest t c)"
proof (induction l)
  case Nil
  show ?case by (simp add: option.map_ident)
next
  case (Cons x xs)
  then show ?case by (cases "str_format ext rest t c") simp_all
qed

lemma str_format_title:
  "str_format ext (ascii ''{title}'' @ rest) t c = map_option (\<lambda>r. t @ r) (str_format ext rest t c)"
  by (simp add: ascii_def in_name_def lookup_field_def)

lemma str_format_content:
  "str_format ext (ascii ''{content}'' @ rest) t c = map_option (\<lambda>r. c @ r) (str_format ext rest t c)"
  by (simp add: ascii_def in_name_def lookup_field_def)

lemma str_format_template_of:
  "str_format ext (template_of segs) t c = Some (render segs t c)"
proof (induction segs)
  case Nil
  show ?case by simp
next
  case (Cons seg segs)
  then show ?case
    by (cases seg) (simp_all add: str_format_escape str_format_title str_format_content)
qed

text \<open>The built-in template is such a template, so it renders for every article.\<close>

lemma default_prompt_template:
  "default_prompt = template_of [Literal prompt_head, Title_field, Literal prompt_middle, Content_field, Literal prompt_tail]"
  by (simp add: default_prompt_def prompt_head_def prompt_middle_def prompt_tail_def)

lemma str_format_default:
  "str_format ext default_prompt t c = Some (prompt_head @ t @ prompt_middle @ c @ prompt_tail)"
  using str_format_template_of [of ext "[Literal prompt_head, Title_field, Literal prompt_middle,
    Content_field, Literal prompt_tail]" t c]
  by (simp only: default_prompt_template render.simps append_Nil2)

text \<open>A field that is not among the keyword arguments makes \<^verbatim>\<open>str.format\<close> raise.\<close>

lemma author_template: "str_format ext (ascii ''{author}'') t c = None"
  by (simp add: ascii_def in_name_def lookup_field_def)

lemma author_config_template: "prompt_template (Summarizer author_config) = ascii ''{author}''"
  by (simp add: Summarizer_def get_default_def author_config_def)

lemma mystery_config_template:
  "prompt_template (Summarizer mystery_config) = ascii ''{author}''"
  by (simp add: Summarizer_def get_default_def mystery_config_def ascii_def)

section \<open>Reading a trace\<close>

lemma created_simps [simp]:
  "created [] = []"
  "created (Print l # tr) = created tr"
  "created (New_Anthropic k r # tr) = (case r of None \<Rightarrow> created tr | Some c \<Rightarrow> c # created tr)"
  "created (New_OpenAI k b r # tr) = (case r of None \<Rightarrow> created tr | Some c \<Rightarrow> c # created tr)"
  "created (Messages_create c m n p # tr) = created tr"
  "created (Chat_completions_create c m n p # tr) = created tr"
  "created (tr @ tr') = created tr @ created tr'"
  by (simp_all add: created_def map_filter_def split: option.splits)

lemma used_simps [simp]:
  "used [] = []"
  "used (Print l # tr) = used tr"
  "used (New_Anthropic k r # tr) = used tr"
  "used (New_OpenAI k b r # tr) = used tr"
  "used (Messages_create c m n p # tr) = c # used tr"
  "used (Chat_completions_create c m n p # tr) = c # used tr"
  "used (tr @ tr') = used tr @ used tr'"
  by (simp_all add: used_def map_filter_def)

lemma dispatched_simps [simp]:
  "dispatched [] = []"
  "dispatched (Print l # tr) = dispatched tr"
  "dispatched (New_Anthropic k r # tr) = dispatched tr"
  "dispatched (New_OpenAI k b r # tr) = dispatched tr"
  "dispatched (Messages_create c m n p # tr) = p # dispatched tr"
  "dispatched (Chat_completions_create c m n p # tr) = p # dispatched tr"
  "dispatched (tr @ tr') = dispatched tr @ dispatched tr'"
  by (simp_all add: dispatched_def map_filter_def)

section \<open>Runs in the example worlds\<close>

lemma summarize_A:
  "summarize env s w article_A = (Return (Some no_summary), s, w, [])"
  by (simp add: summarize_def article_A_def)


lemma article_C_simps:
  "length (content article_C) = 200"
  by (simp add: article_C_def)

lemma format_C:
  "str_format ext default_prompt (title article_C) (content article_C) = Some prompt_C"
  by (simp add: str_format_default article_C_def prompt_C_def)

lemma summarize_C_echo:
  "summarize echo_env (Summarizer Map.empty) 0 article_C
     = (Return (Some prompt_C), (Summarizer Map.empty)\<lparr>client := Some (Anthropic 0)\<rparr>, Suc 0,
        [New_Anthropic None (Some (Anthropic 0)),
         Messages_create (Anthropic 0) (ascii ''claude-sonnet-4-20250514'') 500 prompt_C])"
  by (simp add: summarize_def article_C_simps format_C dispatch_def
      summarize_with_claude_def get_claude_client_def Summarizer_def get_default_def
      echo_env_def first_text_def)



lemma summarize_C_mystery:
  "summarize echo_env (Summarizer [ascii ''provider'' \<mapsto> ascii ''mystery'']) 0 article_C
     = (Return None, Summarizer [ascii ''provider'' \<mapsto> ascii ''mystery''], 0,
        [Print (warning_line (ascii ''mystery''))])"
  by (simp add: summarize_def Summarizer_def get_default_def article_C_def str_format_default
      dispatch_def ascii_def)




section \<open>Short and empty articles\<close>

text \<open>
  Claim C1. For an article whose content is not empty and shorter than 100 characters,
  \<open>summarize\<close> returns that content unchanged; for an article whose content is empty it
  returns the placeholder text. In both cases nothing is sent: the trace is empty, and
  the instance and the world are as before.
\<close>

theorem summarize_short_content:
  "(content a \<noteq> [] \<and> length (content a) < 100 \<longrightarrow>
      summarize env s w a = (Return (Some (content a)), s, w, []))
   \<and> (content a = [] \<longrightarrow> summarize env s w a = (Return (Some no_summary), s, w, []))"
  by (simp add: summarize_def)

text \<open>
  The examples of the spec: the content of 50 characters comes back unchanged, the empty
  content gives the placeholder.
\<close>

theorem summarize_short_content_witness:
  "summarize echo_env (Summarizer Map.empty) 0 \<lparr>title = ascii ''B'', content = replicate 50 120\<rparr>
     = (Return (Some (replicate 50 120)), Summarizer Map.empty, 0, [])
   \<and> summarize echo_env (Summarizer Map.empty) 0 \<lparr>title = ascii ''A'', content = []\<rparr>
     = (Return (Some no_summary), Summarizer Map.empty, 0, [])"
  using summarize_short_content [of "\<lparr>title = ascii ''B'', content = replicate 50 120\<rparr>"
      echo_env "Summarizer Map.empty" 0]
    summarize_short_content [of "\<lparr>title = ascii ''A'', content = []\<rparr>"
      echo_env "Summarizer Map.empty" 0]
  by simp

text \<open>
  Claim C10. The length test comes before the choice of the provider: for content
  shorter than 100 characters, whatever the provider and the keys of the instance,
  \<open>summarize\<close> returns the content or the placeholder, prints nothing and leaves the
  instance, with its client field, as it was. With a provider other than
  \<^verbatim>\<open>claude\<close> and \<^verbatim>\<open>openai\<close> the instance and the world are unchanged for every
  article, and no client is constructed or used. A new instance has no client.
\<close>

theorem short_circuit_first:
  "(length (content a) < 100 \<longrightarrow>
      summarize env s w a
        = (Return (Some (if content a = [] then no_summary else content a)), s, w, []))
   \<and> (provider s \<noteq> ascii ''claude'' \<and> provider s \<noteq> ascii ''openai'' \<longrightarrow>
        (case summarize env s w a of (r, s', w', tr) \<Rightarrow>
           s' = s \<and> w' = w \<and> created tr = [] \<and> used tr = []))
   \<and> client (Summarizer config) = None"
  by (simp add: summarize_def dispatch_def Summarizer_def split: option.splits)

text \<open>
  An instance configured with the provider \<^verbatim>\<open>mystery\<close>, on a short and on a long
  article.
\<close>

theorem short_circuit_first_witness:
  "summarize echo_env (Summarizer [ascii ''provider'' \<mapsto> ascii ''mystery'']) 0 article_B
     = (Return (Some (content article_B)),
        Summarizer [ascii ''provider'' \<mapsto> ascii ''mystery''], 0, [])
   \<and> client (Summarizer [ascii ''provider'' \<mapsto> ascii ''mystery'']) = None
   \<and> created [Print (warning_line (ascii ''mystery''))] = []"
  using short_circuit_first [of article_B echo_env
      "Summarizer [ascii ''provider'' \<mapsto> ascii ''mystery'']" 0
      "[ascii ''provider'' \<mapsto> ascii ''mystery'']"]
    short_circuit_first [of article_C echo_env
      "Summarizer [ascii ''provider'' \<mapsto> ascii ''mystery'']" 0
      "[ascii ''provider'' \<mapsto> ascii ''mystery'']"]
  by (simp add: article_B_def summarize_C_mystery)

section \<open>Errors of the provider call\<close>



section \<open>Errors of the template\<close>

text \<open>
  \<open>summarize\<close> raises the exception of \<^verbatim>\<open>str.format\<close> exactly when the content has
  at least 100 characters and the template does not render. When the template renders,
  an unknown provider gives the warning and \<^verbatim>\<open>None\<close>.
\<close>

lemma summarize_format_error_iff:
  "fst (summarize env s w a) = Raise_format_error \<longleftrightarrow>
     100 \<le> length (content a)
     \<and> str_format (format_ext env) (prompt_template s) (title a) (content a) = None"
  by (auto simp: summarize_def split: option.splits prod.splits sum.splits exn.splits)

lemma unknown_provider_warns:
  assumes "provider s \<noteq> ascii ''claude''" and "provider s \<noteq> ascii ''openai''"
    and "100 \<le> length (content a)"
    and "str_format (format_ext env) (prompt_template s) (title a) (content a) = Some prompt"
  shows "summarize env s w a = (Return None, s, w, [Print (warning_line (provider s))])"
  using assms by (simp add: summarize_def dispatch_def)

text \<open>
  Claim C2. The claim is that no exception leaves \<open>summarize\<close>, for every article and
  every configuration. With the template \<^verbatim>\<open>{author}\<close> and the article \<^verbatim>\<open>C\<close> of 200
  characters, the \<^verbatim>\<open>KeyError\<close> of \<^verbatim>\<open>str.format\<close> leaves \<open>summarize\<close>: the
  template is rendered before the \<^verbatim>\<open>try\<close> statement. This holds in every world.
\<close>

theorem template_error_leaves_summarize:
  "summarize env (Summarizer author_config) w article_C
     = (Raise_format_error, Summarizer author_config, w, [])"
  by (simp add: summarize_def article_C_simps author_config_template author_template)

text \<open>
  Claim C6. The claim is that an unsupported provider gives a warning and \<^verbatim>\<open>None\<close> for
  every article of length at least 100. With the provider \<^verbatim>\<open>mystery\<close> and the
  template \<^verbatim>\<open>{author}\<close>, \<open>summarize\<close> raises before it looks at the provider: no
  warning is printed and nothing is returned.
\<close>

theorem unknown_provider_template_error:
  "summarize env (Summarizer mystery_config) w article_C
     = (Raise_format_error, Summarizer mystery_config, w, [])"
  by (simp add: summarize_def article_C_simps mystery_config_template author_template)

section \<open>The cached client\<close>



lemma one_client_refl: "one_client s s []"
  by (simp add: one_client_def split: option.splits)

lemma get_claude_client_one:
  assumes "provider s = ascii ''claude''" and "get_claude_client env s w = (r, s', w', tr)"
  shows "one_client s s' tr \<and> used tr = [] \<and> dispatched tr = [] \<and>
    (case r of
       Inl e \<Rightarrow> client s' = None \<and> created tr = []
     | Inr c \<Rightarrow> client s' = Some c \<and> (created tr = [] \<or> created tr = [c]))"
  using assms
  by (auto simp: get_claude_client_def one_client_def split: option.splits prod.splits sum.splits)

lemma get_openai_client_one:
  assumes "provider s = ascii ''openai''" and "get_openai_client env s w = (r, s', w', tr)"
  shows "one_client s s' tr \<and> used tr = [] \<and> dispatched tr = [] \<and>
    (case r of
       Inl e \<Rightarrow> client s' = None \<and> created tr = []
     | Inr c \<Rightarrow> client s' = Some c \<and> (created tr = [] \<or> created tr = [c]))"
  using assms
  by (auto simp: get_openai_client_def one_client_def split: option.splits prod.splits sum.splits)

lemma one_client_snoc_request:
  assumes "client s' = Some c"
  shows "one_client s s' (tr @ [Messages_create c m n p]) = one_client s s' tr"
    and "one_client s s' (tr @ [Chat_completions_create c m n p]) = one_client s s' tr"
  using assms by (simp_all add: one_client_def)


lemma one_client_cons_print:
  "one_client s s' (Print l # tr) = one_client s s' tr"
  by (simp add: one_client_def)

lemma summarize_with_claude_one:
  assumes "provider s = ascii ''claude''"
    and "summarize_with_claude env s w p = (r, s', w', tr)"
  shows "one_client s s' tr \<and> dispatched tr = (if client s' = None then [] else [p])
    \<and> (created tr = [] \<or> used tr = created tr)"
proof (cases "get_claude_client env s w")
  case (fields g s1 w1 tr1)
  note g = get_claude_client_one [OF assms(1) fields]
  show ?thesis
  proof (cases g)
    case (Inl e)
    from assms(2) fields Inl have eq: "s' = s1" "tr = tr1"
      by (simp_all add: summarize_with_claude_def)
    from g Inl show ?thesis unfolding eq by simp
  next
    case (Inr c)
    from assms(2) fields Inr
    have eq: "s' = s1" "tr = tr1 @ [Messages_create c (model s1) 500 p]"
      by (auto simp: summarize_with_claude_def split: prod.splits sum.splits)
    from g Inr have c: "client s1 = Some c" and one: "one_client s s1 tr1"
      and none: "dispatched tr1 = []" and unused: "used tr1 = []"
      and cr: "created tr1 = [] \<or> created tr1 = [c]"
      by simp_all
    show ?thesis unfolding eq
      using cr by (auto simp: one_client_snoc_request [OF c] one none c unused)
  qed
qed

lemma summarize_with_openai_one:
  assumes "provider s = ascii ''openai''"
    and "summarize_with_openai env s w p = (r, s', w', tr)"
  shows "one_client s s' tr \<and> dispatched tr = (if client s' = None then [] else [p])
    \<and> (created tr = [] \<or> used tr = created tr)"
proof (cases "get_openai_client env s w")
  case (fields g s1 w1 tr1)
  note g = get_openai_client_one [OF assms(1) fields]
  show ?thesis
  proof (cases g)
    case (Inl e)
    from assms(2) fields Inl have eq: "s' = s1" "tr = tr1"
      by (simp_all add: summarize_with_openai_def)
    from g Inl show ?thesis unfolding eq by simp
  next
    case (Inr c)
    from assms(2) fields Inr
    have eq: "s' = s1" "tr = tr1 @ [Chat_completions_create c (openai_model s1) 500 p]"
      by (auto simp: summarize_with_openai_def split: prod.splits sum.splits)
    from g Inr have c: "client s1 = Some c" and one: "one_client s s1 tr1"
      and none: "dispatched tr1 = []" and unused: "used tr1 = []"
      and cr: "created tr1 = [] \<or> created tr1 = [c]"
      by simp_all
    show ?thesis unfolding eq
      using cr by (auto simp: one_client_snoc_request [OF c] one none c unused)
  qed
qed

lemma dispatch_one:
  assumes "dispatch env s w p = (r, s', w', tr)"
  shows "one_client s s' tr \<and>
    dispatched tr =
      (if (provider s = ascii ''claude'' \<or> provider s = ascii ''openai'') \<and> client s' \<noteq> None
       then [p] else [])
    \<and> (created tr = [] \<or> used tr = created tr)"
proof -
  consider (claude) "provider s = ascii ''claude''"
    | (openai) "provider s \<noteq> ascii ''claude''" "provider s = ascii ''openai''"
    | (other) "provider s \<noteq> ascii ''claude''" "provider s \<noteq> ascii ''openai''"
    by blast
  then show ?thesis
  proof cases
    case claude
    obtain r0 where "summarize_with_claude env s w p = (r0, s', w', tr)"
      using assms claude by (auto simp: dispatch_def split: prod.splits)
    from summarize_with_claude_one [OF claude this] claude show ?thesis by simp
  next
    case openai
    then have "summarize_with_openai env s w p = (r, s', w', tr)"
      using assms by (simp add: dispatch_def)
    from summarize_with_openai_one [OF openai(2) this] openai show ?thesis by simp
  next
    case other
    with assms have eq: "s' = s" "tr = [Print (warning_line (provider s))]"
      by (auto simp: dispatch_def)
    from other show ?thesis unfolding eq
      by (simp add: one_client_cons_print one_client_refl)
  qed
qed






section \<open>The loop of the batch\<close>






text \<open>
  After a call of \<open>summarize\<close> that returns \<^verbatim>\<open>None\<close> the loop goes on with the
  next article.
\<close>

lemma batch_loop_continues:
  assumes "summarize env s w a = (Return None, s1, w1, tr1)"
  shows "batch_loop env shown s w i (a # rest) acc =
     (case batch_loop env shown s1 w1 (Suc i) rest (acc @ [(a, None)]) of
        (r, s2, w2, tr2) \<Rightarrow> (r, s2, w2, Print (progress_line i shown (title a)) # tr1 @ tr2))"
  using assms by simp

text \<open>If no call of \<open>summarize\<close> for an article of the list raises, the loop returns.\<close>

lemma batch_loop_returns:
  assumes "\<And>a s1 w1. a \<in> set articles \<Longrightarrow>
      \<exists>r s2 w2 tr. summarize env s1 w1 a = (Return r, s2, w2, tr)"
  shows "\<exists>rs s' w' tr. batch_loop env shown s w i articles acc = (Return rs, s', w', tr)"
  using assms
proof (induction articles arbitrary: s w i acc)
  case Nil
  show ?case by simp
next
  case (Cons a rest)
  from Cons.prems [of a s w] obtain r s2 w2 tr where
    step: "summarize env s w a = (Return r, s2, w2, tr)"
    by auto
  have "\<exists>rs s' w' tr. batch_loop env shown s2 w2 (Suc i) rest (acc @ [(a, r)])
      = (Return rs, s', w', tr)"
  proof (rule Cons.IH)
    fix b s1 w1
    assume "b \<in> set rest"
    then have "b \<in> set (a # rest)" by simp
    then show "\<exists>r s2 w2 tr. summarize env s1 w1 b = (Return r, s2, w2, tr)"
      by (rule Cons.prems)
  qed
  then obtain rs s' w' tr' where
    "batch_loop env shown s2 w2 (Suc i) rest (acc @ [(a, r)]) = (Return rs, s', w', tr')"
    by blast
  with step have "batch_loop env shown s w i (a # rest) acc
      = (Return rs, s', w', Print (progress_line i shown (title a)) # tr @ tr')"
    by simp
  then show ?case by blast
qed

lemma summarize_batch_returns:
  assumes "\<And>a s1 w1. a \<in> set (slice_to n articles) \<Longrightarrow>
      \<exists>r s2 w2 tr. summarize env s1 w1 a = (Return r, s2, w2, tr)"
  shows "\<exists>rs s' w' tr. summarize_batch env s w articles n = (Return rs, s', w', tr)"
  unfolding summarize_batch_def using assms by (rule batch_loop_returns)




text \<open>
  Claim C5. The claim is that a failing call of \<open>summarize\<close> never ends the batch. With
  the template \<^verbatim>\<open>{author}\<close> and the articles \<^verbatim>\<open>A\<close> (empty), \<^verbatim>\<open>C\<close> (200
  characters) and \<^verbatim>\<open>B\<close> (50 characters), the exception that leaves \<open>summarize\<close> for
  \<^verbatim>\<open>C\<close> leaves \<open>summarize_batch\<close> too: no pair is returned, and \<^verbatim>\<open>B\<close> is never
  looked at (there is no third progress line). This holds in every world.
\<close>

theorem template_error_aborts_batch:
  "summarize_batch env (Summarizer author_config) w [article_A, article_C, article_B] 10
     = (Raise_format_error, Summarizer author_config, w,
        [Print (progress_line 0 3 (title article_A)),
         Print (progress_line 1 3 (title article_C))])"
proof -
  have c: "summarize env (Summarizer author_config) w article_C
     = (Raise_format_error, Summarizer author_config, w, [])"
    by (simp add: summarize_def article_C_simps author_config_template author_template)
  show ?thesis
    by (simp add: summarize_batch_def slice_to_def summarize_A c)
qed



section \<open>The prompt that is sent\<close>

lemma summarize_dispatched:
  assumes "100 \<le> length (content a)"
    and "str_format (format_ext env) (prompt_template s) (title a) (content a) = Some p"
    and "summarize env s w a = (r, s', w', tr)"
  shows "dispatched tr =
      (if (provider s = ascii ''claude'' \<or> provider s = ascii ''openai'') \<and> client s' \<noteq> None
       then [p] else [])"
proof -
  obtain r0 s0 w0 tr0 where d: "dispatch env s w p = (r0, s0, w0, tr0)"
    by (cases "dispatch env s w p") auto
  from assms d have "s' = s0" and "dispatched tr = dispatched tr0"
    by (auto simp: summarize_def split: sum.splits exn.splits)
  with dispatch_one [OF d] show ?thesis by simp
qed

text \<open>
  Claim C7, amended. For an article with content of length at least 100 and a template
  made of literal text and the placeholders \<^verbatim>\<open>{title}\<close> and \<^verbatim>\<open>{content}\<close>, the prompts
  that \<open>summarize\<close> sends are: the rendering of the template with the title and the
  content put in verbatim, once, when the provider is \<^verbatim>\<open>claude\<close> or \<^verbatim>\<open>openai\<close> and a
  client is there at the end; nothing otherwise. So the prompt is a function of the
  template, the title and the content.
\<close>

theorem summarize_dispatches_rendered_template:
  assumes "100 \<le> length (content a)"
    and "prompt_template s = template_of segs"
    and "summarize env s w a = (r, s', w', tr)"
  shows "dispatched tr =
      (if (provider s = ascii ''claude'' \<or> provider s = ascii ''openai'') \<and> client s' \<noteq> None
       then [render segs (title a) (content a)] else [])"
proof -
  have "str_format (format_ext env) (prompt_template s) (title a) (content a)
      = Some (render segs (title a) (content a))"
    unfolding assms(2) by (rule str_format_template_of)
  from summarize_dispatched [OF assms(1) this assms(3)] show ?thesis .
qed

text \<open>The built-in template and the article \<^verbatim>\<open>C\<close>.\<close>

theorem summarize_dispatches_rendered_template_witness:
  "dispatched [New_Anthropic None (Some (Anthropic 0)),
      Messages_create (Anthropic 0) (ascii ''claude-sonnet-4-20250514'') 500 prompt_C]
     = [render [Literal prompt_head, Title_field, Literal prompt_middle, Content_field,
          Literal prompt_tail] (title article_C) (content article_C)]"
proof -
  have len: "100 \<le> length (content article_C)" by (simp add: article_C_def)
  have tmpl: "prompt_template (Summarizer Map.empty)
      = template_of [Literal prompt_head, Title_field, Literal prompt_middle, Content_field,
          Literal prompt_tail]"
    by (simp only: default_prompt_template [symmetric])
      (simp add: Summarizer_def get_default_def)
  from summarize_dispatches_rendered_template [OF len tmpl summarize_C_echo]
  show ?thesis by (simp add: Summarizer_def get_default_def)
qed

text \<open>
  Claim C7, as stated, fails in its second half: two templates that differ can give the
  same prompt. For the article with the title \<^verbatim>\<open>C\<close> the templates
  \<^verbatim>\<open>{title}{content}\<close> and \<^verbatim>\<open>C{content}\<close> do.
\<close>

theorem distinct_templates_same_prompt:
  "prompt_template (Summarizer title_config) \<noteq> prompt_template (Summarizer literal_config)
   \<and> (case summarize echo_env (Summarizer title_config) 0 article_C of
        (r, s', w', tr) \<Rightarrow> dispatched tr) = [ascii ''C'' @ content article_C]
   \<and> (case summarize echo_env (Summarizer literal_config) 0 article_C of
        (r, s', w', tr) \<Rightarrow> dispatched tr) = [ascii ''C'' @ content article_C]"
  by (simp add: summarize_def Summarizer_def get_default_def title_config_def
      literal_config_def article_C_def ascii_def in_name_def lookup_field_def dispatch_def
      summarize_with_claude_def get_claude_client_def echo_env_def first_text_def)

end
